theory Spec2Isabelle
  imports Main "HOL-Library.Sublist"
begin

section \<open>The script check-ata.js\<close>

text \<open>
  The script creates a connection to a ledger node, then walks a fixed list of token
  account addresses: for each one it asks the node whether the account exists and, if it
  does, fetches and decodes it as a token account and prints mint, balance and owner.

  The two libraries the script calls (\<^verbatim>\<open>@solana/web3.js\<close> and
  \<^verbatim>\<open>@solana/spl-token\<close>) are not part of the repository. Their entry points are the
  fields of the record \<open>library\<close> below; every theorem holds for every value of it.
  A call that throws, or whose promise rejects, returns \<open>Inl\<close> of the fault.
  The remote ledger is a world of type \<open>'w\<close> that each query may read and change, so the
  answers may differ from one call to the next.
\<close>

subsection \<open>Values\<close>

text \<open>A thrown value: a JavaScript \<^verbatim>\<open>Error\<close> object, of which the script reads \<^verbatim>\<open>message\<close>.\<close>

datatype fault = Fault (message: string)

text \<open>
  The decoded token account, with the three fields the script reads. \<^verbatim>\<open>mint\<close> and
  \<^verbatim>\<open>owner\<close> are public keys, \<^verbatim>\<open>amount\<close> is an unsigned \<^verbatim>\<open>bigint\<close>.
\<close>

record 'k tokenAccount =
  mint :: 'k
  owner :: 'k
  amount :: nat

text \<open>
  \<open>'c\<close> is the connection handle, \<open>'k\<close> the public key object, \<open>'a\<close> the raw account
  info (only its being \<^verbatim>\<open>null\<close> or not is read: \<open>None\<close> is \<^verbatim>\<open>null\<close>).
\<close>

record ('w, 'c, 'k, 'a) library =
  Connection :: "string \<Rightarrow> string \<Rightarrow> fault + 'c"
  PublicKey :: "string \<Rightarrow> fault + 'k"
  toString :: "'k \<Rightarrow> string"
  getAccountInfo :: "'c \<Rightarrow> 'k \<Rightarrow> 'w \<Rightarrow> (fault + 'a option) \<times> 'w"
  getAccount :: "'c \<Rightarrow> 'k \<Rightarrow> 'w \<Rightarrow> (fault + 'k tokenAccount) \<times> 'w"

text \<open>
  What a run does, in the order it does it: each awaited query with the outcome it
  settled with, each \<^verbatim>\<open>console.log\<close> and \<^verbatim>\<open>console.error\<close> call with its argument, and
  the report of an exception nobody caught.
\<close>

datatype ('k, 'a) event =
    QueryAccountInfo 'k "fault + 'a option"
  | QueryAccount 'k "fault + 'k tokenAccount"
  | ConsoleLog string
  | ConsoleError fault
  | Uncaught fault

record ('w, 'k, 'a) state =
  world :: 'w
  trace :: "('k, 'a) event list"

subsection \<open>Number and string rendering\<close>

text \<open>
  \<^verbatim>\<open>toString()\<close> of a non-negative \<^verbatim>\<open>bigint\<close>, and of the integer \<^verbatim>\<open>i + 1\<close> in a
  template string: the decimal digits, most significant first, no leading zero.
\<close>

fun decimal :: "nat \<Rightarrow> string" where
  "decimal n =
     (if n < 10 then [''0123456789'' ! n]
      else decimal (n div 10) @ [''0123456789'' ! (n mod 10)])"

declare decimal.simps [simp del]

text \<open>Reading a decimal numeral back, to state that rendering loses nothing.\<close>

definition digit_value :: "char \<Rightarrow> nat" where
  "digit_value c = of_char c - 48"

definition read_decimal :: "string \<Rightarrow> nat" where
  "read_decimal s = foldl (\<lambda>acc c. 10 * acc + digit_value c) 0 s"

text \<open>
  The string literals of the script that are not ASCII, as the UTF-8 bytes that
  \<^verbatim>\<open>console.log\<close> writes.
\<close>

definition header :: string where
  "header =
     [CHR 0xF0, CHR 0x9F, CHR 0x94, CHR 0x8D] @ '' '' @
     [CHR 0xD0, CHR 0x9F, CHR 0xD1, CHR 0x80, CHR 0xD0, CHR 0xBE, CHR 0xD0, CHR 0xB2,
      CHR 0xD0, CHR 0xB5, CHR 0xD1, CHR 0x80, CHR 0xD0, CHR 0xBA, CHR 0xD0, CHR 0xB0] @
     '' Associated Token Accounts...''"

definition check_mark :: string where
  "check_mark = [CHR 0xE2, CHR 0x9C, CHR 0x85]"

definition cross_mark :: string where
  "cross_mark = [CHR 0xE2, CHR 0x9D, CHR 0x8C]"

definition warning_sign :: string where
  "warning_sign = [CHR 0xE2, CHR 0x9A, CHR 0xA0, CHR 0xEF, CHR 0xB8, CHR 0x8F]"

definition not_found_text :: string where
  "not_found_text =
     [CHR 0xD0, CHR 0xBD, CHR 0xD0, CHR 0xB5] @ '' '' @
     [CHR 0xD0, CHR 0xBD, CHR 0xD0, CHR 0xB0, CHR 0xD0, CHR 0xB9, CHR 0xD0, CHR 0xB4,
      CHR 0xD0, CHR 0xB5, CHR 0xD0, CHR 0xBD]"

definition error_text :: string where
  "error_text =
     [CHR 0xD0, CHR 0xBE, CHR 0xD1, CHR 0x88, CHR 0xD0, CHR 0xB8, CHR 0xD0, CHR 0xB1,
      CHR 0xD0, CHR 0xBA, CHR 0xD0, CHR 0xB0]"

subsection \<open>Configuration\<close>

definition endpoint :: string where
  "endpoint = ''[https://api.devnet.solana.com](https://api.devnet.solana.com)''"

definition ATA_ADDRESSES :: "string list" where
  "ATA_ADDRESSES =
     [''ASkpsRKwGKbUmmMrdknqnHVrmxsU8Ws6qeX5iE6AUERK'',
      ''73weDmPbP1pjZyshM47xiUV6pSadjoZPEtHeczAmNE7P'',
      ''HkuaPeSMog2jbGMYm7vjPFSaheM69PS1VXoioTp25sxS'']"

subsection \<open>Effects\<close>

definition console_log :: "string \<Rightarrow> ('w, 'k, 'a) state \<Rightarrow> ('w, 'k, 'a) state" where
  "console_log s st = st\<lparr>trace := trace st @ [ConsoleLog s]\<rparr>"

definition console_error :: "fault \<Rightarrow> ('w, 'k, 'a) state \<Rightarrow> ('w, 'k, 'a) state" where
  "console_error e st = st\<lparr>trace := trace st @ [ConsoleError e]\<rparr>"

text \<open>
  \<^verbatim>\<open>await connection.getAccountInfo(ata)\<close>: the function is suspended until the promise
  settles, so the outcome is there before the next statement runs.
\<close>

definition await_getAccountInfo ::
  "('w, 'c, 'k, 'a) library \<Rightarrow> 'c \<Rightarrow> 'k \<Rightarrow> ('w, 'k, 'a) state
     \<Rightarrow> (fault + 'a option) \<times> ('w, 'k, 'a) state" where
  "await_getAccountInfo lib connection ata st =
     (case getAccountInfo lib connection ata (world st) of
        (r, w) \<Rightarrow> (r, \<lparr>world = w, trace = trace st @ [QueryAccountInfo ata r]\<rparr>))"

text \<open>\<^verbatim>\<open>await getAccount(connection, ata)\<close>.\<close>

definition await_getAccount ::
  "('w, 'c, 'k, 'a) library \<Rightarrow> 'c \<Rightarrow> 'k \<Rightarrow> ('w, 'k, 'a) state
     \<Rightarrow> (fault + 'k tokenAccount) \<times> ('w, 'k, 'a) state" where
  "await_getAccount lib connection ata st =
     (case getAccount lib connection ata (world st) of
        (r, w) \<Rightarrow> (r, \<lparr>world = w, trace = trace st @ [QueryAccount ata r]\<rparr>))"

subsection \<open>The function checkATA\<close>

text \<open>
  The body of the \<^verbatim>\<open>try\<close> block of iteration \<open>i\<close>. \<open>Some error\<close> is the exception that
  leaves the block, together with the state reached when it was thrown.
\<close>

definition try_block ::
  "('w, 'c, 'k, 'a) library \<Rightarrow> 'c \<Rightarrow> nat \<Rightarrow> 'k \<Rightarrow> ('w, 'k, 'a) state
     \<Rightarrow> fault option \<times> ('w, 'k, 'a) state" where
  "try_block lib connection i ata st =
     (case await_getAccountInfo lib connection ata st of
        (Inl error, st1) \<Rightarrow> (Some error, st1)
      | (Inr accountInfo, st1) \<Rightarrow>
          (case accountInfo of
             Some _ \<Rightarrow>
               (case await_getAccount lib connection ata st1 of
                  (Inl error, st2) \<Rightarrow> (Some error, st2)
                | (Inr tokenAccount, st2) \<Rightarrow>
                    (let st3 = console_log
                           (check_mark @ '' ATA '' @ decimal (i + 1) @ '': '' @ toString lib ata) st2;
                         st4 = console_log
                           (''   Mint: '' @ toString lib (mint tokenAccount)) st3;
                         st5 = console_log
                           (''   Balance: '' @ decimal (amount tokenAccount)) st4;
                         st6 = console_log
                           (''   Owner: '' @ toString lib (owner tokenAccount)) st5
                     in (None, st6)))
           | None \<Rightarrow>
               (None, console_log
                  (cross_mark @ '' ATA '' @ decimal (i + 1) @ '': '' @ toString lib ata @
                   '' - '' @ not_found_text) st1)))"

text \<open>The \<^verbatim>\<open>try\<close> statement with its \<^verbatim>\<open>catch (error)\<close> clause.\<close>

definition try_catch ::
  "('w, 'c, 'k, 'a) library \<Rightarrow> 'c \<Rightarrow> nat \<Rightarrow> 'k \<Rightarrow> ('w, 'k, 'a) state \<Rightarrow> ('w, 'k, 'a) state" where
  "try_catch lib connection i ata st =
     (case try_block lib connection i ata st of
        (Some error, st1) \<Rightarrow>
          console_log
            (warning_sign @ '' ATA '' @ decimal (i + 1) @ '': '' @ toString lib ata @
             '' - '' @ error_text @ '': '' @ message error) st1
      | (None, st1) \<Rightarrow> st1)"

text \<open>
  The \<^verbatim>\<open>for\<close> loop from index \<open>i\<close> on. \<^verbatim>\<open>new PublicKey(...)\<close> stands before the
  \<^verbatim>\<open>try\<close> statement: when it throws, the exception leaves the loop and the function,
  whose promise is rejected with it (\<open>Some error\<close>).
\<close>

function checkATA_loop ::
  "('w, 'c, 'k, 'a) library \<Rightarrow> 'c \<Rightarrow> string list \<Rightarrow> nat \<Rightarrow> ('w, 'k, 'a) state
     \<Rightarrow> fault option \<times> ('w, 'k, 'a) state" where
  "checkATA_loop lib connection addrs i st =
     (if i < length addrs then
        (case PublicKey lib (addrs ! i) of
           Inl error \<Rightarrow> (Some error, st)
         | Inr ata \<Rightarrow>
             checkATA_loop lib connection addrs (i + 1)
               (console_log '''' (try_catch lib connection i ata st)))
      else (None, st))"
  by pat_completeness auto
termination
  by (relation "measure (\<lambda>(lib, connection, addrs, i, st). length addrs - i)") auto

declare checkATA_loop.simps [simp del]

definition checkATA ::
  "('w, 'c, 'k, 'a) library \<Rightarrow> 'c \<Rightarrow> string list \<Rightarrow> ('w, 'k, 'a) state
     \<Rightarrow> fault option \<times> ('w, 'k, 'a) state" where
  "checkATA lib connection addrs st = checkATA_loop lib connection addrs 0 (console_log header st)"

subsection \<open>The module\<close>

text \<open>
  The top level of the module, for an address list \<open>addrs\<close> and a ledger that starts in
  world \<open>w\<close>; the result is the final state and the exit code of the process.
  An exception thrown while the module body runs is uncaught: the runtime reports it and
  the process ends with code 1. The promise of \<^verbatim>\<open>checkATA()\<close> has the handler
  \<^verbatim>\<open>console.error\<close> attached, so a rejection is handled, and the process ends with code 0
  when nothing is left to do.
\<close>

definition script ::
  "('w, 'c, 'k, 'a) library \<Rightarrow> string list \<Rightarrow> 'w \<Rightarrow> ('w, 'k, 'a) state \<times> nat" where
  "script lib addrs w =
     (case Connection lib endpoint ''confirmed'' of
        Inl error \<Rightarrow> (\<lparr>world = w, trace = [Uncaught error]\<rparr>, 1)
      | Inr connection \<Rightarrow>
          (case checkATA lib connection addrs \<lparr>world = w, trace = []\<rparr> of
             (Some error, st) \<Rightarrow> (console_error error st, 0)
           | (None, st) \<Rightarrow> (st, 0)))"

definition main :: "('w, 'c, 'k, 'a) library \<Rightarrow> 'w \<Rightarrow> ('w, 'k, 'a) state \<times> nat" where
  "main lib w = script lib ATA_ADDRESSES w"

text \<open>What the run wrote with \<^verbatim>\<open>console.log\<close>, one entry per call.\<close>

fun logged :: "('k, 'a) event list \<Rightarrow> string list" where
  "logged [] = []"
| "logged (ConsoleLog s # evs) = s # logged evs"
| "logged (_ # evs) = logged evs"

definition stdout :: "('w, 'k, 'a) state \<Rightarrow> string list" where
  "stdout st = logged (trace st)"

subsection \<open>Observations on a run\<close>

text \<open>The lines that the try statement of iteration \<open>i\<close> writes, started in state \<open>st\<close>.\<close>

definition block ::
  "('w, 'c, 'k, 'a) library \<Rightarrow> 'c \<Rightarrow> nat \<Rightarrow> 'k \<Rightarrow> ('w, 'k, 'a) state \<Rightarrow> string list" where
  "block lib connection i ata st =
     drop (length (stdout st)) (stdout (try_catch lib connection i ata st))"

definition is_mint_line :: "string \<Rightarrow> bool" where
  "is_mint_line s = prefix ''   Mint: '' s"

definition is_balance_line :: "string \<Rightarrow> bool" where
  "is_balance_line s = prefix ''   Balance: '' s"

definition is_owner_line :: "string \<Rightarrow> bool" where
  "is_owner_line s = prefix ''   Owner: '' s"

text \<open>
  The public keys of the addresses up to the first one that \<^verbatim>\<open>new PublicKey\<close> refuses.
\<close>

fun keys :: "('w, 'c, 'k, 'a) library \<Rightarrow> string list \<Rightarrow> 'k list" where
  "keys lib [] = []"
| "keys lib (s # ss) = (case PublicKey lib s of Inl _ \<Rightarrow> [] | Inr k \<Rightarrow> k # keys lib ss)"

definition is_valid :: "('w, 'c, 'k, 'a) library \<Rightarrow> string \<Rightarrow> bool" where
  "is_valid lib s = (case PublicKey lib s of Inl _ \<Rightarrow> False | Inr _ \<Rightarrow> True)"

text \<open>
  The events of one identifier, as a run orders them: the existence query for this key;
  the decode query for the same key, there exactly when the existence query reported an
  account; then output only, ending with the blank line.
\<close>

fun is_log :: "('k, 'a) event \<Rightarrow> bool" where
  "is_log (ConsoleLog s) = True"
| "is_log _ = False"

definition output_then_separator :: "('k, 'a) event list \<Rightarrow> bool" where
  "output_then_separator evs = (evs \<noteq> [] \<and> list_all is_log evs \<and> last evs = ConsoleLog '''')"

fun segment :: "'k \<Rightarrow> ('k, 'a) event list \<Rightarrow> bool" where
  "segment k (QueryAccountInfo k1 (Inr (Some a)) # QueryAccount k2 d # evs) =
     (k1 = k \<and> k2 = k \<and> output_then_separator evs)"
| "segment k (QueryAccountInfo k1 (Inr (Some a)) # evs) = False"
| "segment k (QueryAccountInfo k1 r # evs) = (k1 = k \<and> output_then_separator evs)"
| "segment k evs = False"

text \<open>The keys of the existence queries of a run, in the order they were issued.\<close>

fun queried :: "('k, 'a) event list \<Rightarrow> 'k list" where
  "queried [] = []"
| "queried (QueryAccountInfo k r # evs) = k # queried evs"
| "queried (_ # evs) = queried evs"

text \<open>
  The fault, if any, that no try statement of the script catches: thrown while the module
  body creates the connection, or rejecting the promise of \<^verbatim>\<open>checkATA()\<close>.
\<close>

definition escaped_fault :: "('w, 'c, 'k, 'a) library \<Rightarrow> string list \<Rightarrow> 'w \<Rightarrow> fault option" where
  "escaped_fault lib addrs w =
     (case Connection lib endpoint ''confirmed'' of
        Inl error \<Rightarrow> Some error
      | Inr connection \<Rightarrow> fst (checkATA lib connection addrs \<lparr>world = w, trace = []\<rparr>))"

subsection \<open>The results of the specification\<close>

text \<open>
  The specification speaks of one inspection result per identifier, which the script
  never builds as a value. These definitions follow the specification's words: what
  result a report of the ledger stands for (a present account is decided by the decode
  query that follows it), and the lines that render a result.
\<close>

datatype 'k inspectionResult = Found "'k tokenAccount" | NotFound | Error string

fun spec_result :: "('k, 'a) event \<Rightarrow> 'k inspectionResult option" where
  "spec_result (QueryAccountInfo k (Inl e)) = Some (Error (message e))"
| "spec_result (QueryAccountInfo k (Inr None)) = Some NotFound"
| "spec_result (QueryAccountInfo k (Inr (Some a))) = None"
| "spec_result (QueryAccount k (Inl e)) = Some (Error (message e))"
| "spec_result (QueryAccount k (Inr record)) = Some (Found record)"
| "spec_result _ = None"

fun spec_results :: "('k, 'a) event list \<Rightarrow> 'k inspectionResult list" where
  "spec_results [] = []"
| "spec_results (ev # evs) =
     (case spec_result ev of None \<Rightarrow> spec_results evs | Some res \<Rightarrow> res # spec_results evs)"

fun spec_render ::
  "('w, 'c, 'k, 'a) library \<Rightarrow> nat \<Rightarrow> 'k \<Rightarrow> 'k inspectionResult \<Rightarrow> string list" where
  "spec_render lib i ata (Found record) =
     [check_mark @ '' ATA '' @ decimal (i + 1) @ '': '' @ toString lib ata,
      ''   Mint: '' @ toString lib (mint record),
      ''   Balance: '' @ decimal (amount record),
      ''   Owner: '' @ toString lib (owner record)]"
| "spec_render lib i ata NotFound =
     [cross_mark @ '' ATA '' @ decimal (i + 1) @ '': '' @ toString lib ata @
      '' - '' @ not_found_text]"
| "spec_render lib i ata (Error msg) =
     [warning_sign @ '' ATA '' @ decimal (i + 1) @ '': '' @ toString lib ata @
      '' - '' @ error_text @ '': '' @ msg]"

text \<open>
  The same results, each with the identifier whose query the ledger answered: the
  pairs of identifier and inspection result that the specification's contract speaks of.
\<close>

fun spec_inspection :: "('k, 'a) event \<Rightarrow> ('k \<times> 'k inspectionResult) option" where
  "spec_inspection (QueryAccountInfo k (Inl e)) = Some (k, Error (message e))"
| "spec_inspection (QueryAccountInfo k (Inr None)) = Some (k, NotFound)"
| "spec_inspection (QueryAccountInfo k (Inr (Some a))) = None"
| "spec_inspection (QueryAccount k (Inl e)) = Some (k, Error (message e))"
| "spec_inspection (QueryAccount k (Inr record)) = Some (k, Found record)"
| "spec_inspection _ = None"

fun spec_inspections :: "('k, 'a) event list \<Rightarrow> ('k \<times> 'k inspectionResult) list" where
  "spec_inspections [] = []"
| "spec_inspections (ev # evs) =
     (case spec_inspection ev of
        None \<Rightarrow> spec_inspections evs
      | Some r \<Rightarrow> r # spec_inspections evs)"

text \<open>
  The rendering of the results \<open>rs\<close> of the keys \<open>ks\<close>, the first of which stands at
  position \<open>i\<close> of the list: one block per key, in order, each closed by the blank line.
\<close>

definition spec_rendering ::
  "('w, 'c, 'k, 'a) library \<Rightarrow> nat \<Rightarrow> 'k list \<Rightarrow> 'k inspectionResult list \<Rightarrow> string list" where
  "spec_rendering lib i ks rs =
     concat (map (\<lambda>(j, k, res). spec_render lib j k res @ [''''])
       (zip [i..<i + length ks] (zip ks rs)))"

subsection \<open>A mock ledger\<close>

text \<open>
  The ledger of the specification's scenario, used to run the script on concrete lists:
  \<open>Found1\<close> is present and decodes, \<open>Missing2\<close> is absent, \<open>Broken3\<close> is present and
  does not decode, the node fails on \<open>Down4\<close>, and no other string is a public key.
  The world counts the queries answered.
\<close>

definition mock :: "(nat, unit, string, unit) library" where
  "mock =
     \<lparr>Connection = (\<lambda>url commitment. Inr ()),
      PublicKey = (\<lambda>s.
        if s \<in> set [''Found1'', ''Missing2'', ''Broken3'', ''Down4''] then Inr s
        else Inl (Fault ''Invalid public key input'')),
      toString = (\<lambda>k. k),
      getAccountInfo = (\<lambda>connection k w.
        (if k = ''Down4'' then Inl (Fault ''fetch failed'')
         else if k = ''Missing2'' then Inr None
         else Inr (Some ()), w + 1)),
      getAccount = (\<lambda>connection k w.
        (if k = ''Found1''
         then Inr \<lparr>mint = ''MintA'', owner = ''OwnerB'', amount = 18446744073709551615\<rparr>
         else Inl (Fault ''TokenInvalidAccountOwnerError''), w + 1))\<rparr>"

text \<open>
  The same ledger behind a library whose connection refuses an endpoint that does not
  start with \<open>http\<close>.
\<close>

definition strict :: "(nat, unit, string, unit) library" where
  "strict =
     mock\<lparr>Connection := (\<lambda>url commitment.
        if prefix ''http'' url then Inr ()
        else Inl (Fault ''Endpoint URL must start with http: or https:''))\<rparr>"

section \<open>Properties\<close>

subsection \<open>Rendering of numbers\<close>

lemma digit_value_digit: "d < 10 \<Longrightarrow> digit_value (''0123456789'' ! d) = d"
proof -
  assume "d < 10"
  then have "d \<in> {0, 1, 2, 3, 4, 5, 6, 7, 8, 9}" by auto
  then show ?thesis
    unfolding digit_value_def by auto
qed

lemma read_decimal_snoc: "read_decimal (s @ [c]) = 10 * read_decimal s + digit_value c"
  by (simp add: read_decimal_def)

lemma read_decimal_decimal: "read_decimal (decimal n) = n"
proof (induction n rule: decimal.induct)
  case (1 n)
  show ?case
  proof (cases "n < 10")
    case True
    then show ?thesis
      by (subst decimal.simps) (simp add: read_decimal_def digit_value_digit)
  next
    case False
    then have "read_decimal (decimal n) =
        10 * read_decimal (decimal (n div 10)) + digit_value (''0123456789'' ! (n mod 10))"
      by (subst decimal.simps) (simp add: read_decimal_snoc)
    also have "\<dots> = 10 * (n div 10) + n mod 10"
      using 1 False by (simp add: digit_value_digit)
    finally show ?thesis by simp
  qed
qed

lemma decimal_not_Nil: "decimal n \<noteq> []"
  by (subst decimal.simps) simp

subsection \<open>Output and trace\<close>

lemma trace_console_log [simp]: "trace (console_log s st) = trace st @ [ConsoleLog s]"
  by (simp add: console_log_def)

lemma world_console_log [simp]: "world (console_log s st) = world st"
  by (simp add: console_log_def)

lemma logged_append [simp]: "logged (xs @ ys) = logged xs @ logged ys"
  by (induction xs rule: logged.induct) simp_all

lemma spec_results_append [simp]: "spec_results (xs @ ys) = spec_results xs @ spec_results ys"
  by (induction xs) (simp_all split: option.split)

lemma stdout_console_log [simp]: "stdout (console_log s st) = stdout st @ [s]"
  by (simp add: stdout_def)

subsection \<open>The four ways through the try statement\<close>

lemma try_catch_info_fault:
  assumes "getAccountInfo lib connection ata (world st) = (Inl e, w1)"
  shows "try_catch lib connection i ata st =
     \<lparr>world = w1, trace = trace st @
        [QueryAccountInfo ata (Inl e),
         ConsoleLog (warning_sign @ '' ATA '' @ decimal (i + 1) @ '': '' @ toString lib ata @
                     '' - '' @ error_text @ '': '' @ message e)]\<rparr>"
  using assms
  by (simp add: try_catch_def try_block_def await_getAccountInfo_def console_log_def)

lemma try_catch_absent:
  assumes "getAccountInfo lib connection ata (world st) = (Inr None, w1)"
  shows "try_catch lib connection i ata st =
     \<lparr>world = w1, trace = trace st @
        [QueryAccountInfo ata (Inr None),
         ConsoleLog (cross_mark @ '' ATA '' @ decimal (i + 1) @ '': '' @ toString lib ata @
                     '' - '' @ not_found_text)]\<rparr>"
  using assms
  by (simp add: try_catch_def try_block_def await_getAccountInfo_def console_log_def)

lemma try_catch_decode_fault:
  assumes "getAccountInfo lib connection ata (world st) = (Inr (Some a), w1)"
    and "getAccount lib connection ata w1 = (Inl e, w2)"
  shows "try_catch lib connection i ata st =
     \<lparr>world = w2, trace = trace st @
        [QueryAccountInfo ata (Inr (Some a)), QueryAccount ata (Inl e),
         ConsoleLog (warning_sign @ '' ATA '' @ decimal (i + 1) @ '': '' @ toString lib ata @
                     '' - '' @ error_text @ '': '' @ message e)]\<rparr>"
  using assms
  by (simp add: try_catch_def try_block_def await_getAccountInfo_def await_getAccount_def
      console_log_def)

lemma try_catch_found:
  assumes "getAccountInfo lib connection ata (world st) = (Inr (Some a), w1)"
    and "getAccount lib connection ata w1 = (Inr tokenAccount, w2)"
  shows "try_catch lib connection i ata st =
     \<lparr>world = w2, trace = trace st @
        [QueryAccountInfo ata (Inr (Some a)), QueryAccount ata (Inr tokenAccount),
         ConsoleLog (check_mark @ '' ATA '' @ decimal (i + 1) @ '': '' @ toString lib ata),
         ConsoleLog (''   Mint: '' @ toString lib (mint tokenAccount)),
         ConsoleLog (''   Balance: '' @ decimal (amount tokenAccount)),
         ConsoleLog (''   Owner: '' @ toString lib (owner tokenAccount))]\<rparr>"
  using assms
  by (simp add: try_catch_def try_block_def await_getAccountInfo_def await_getAccount_def
      console_log_def Let_def)

lemma try_catch_cases:
  obtains (info_fault) e w1 where "getAccountInfo lib connection ata (world st) = (Inl e, w1)"
  | (absent) w1 where "getAccountInfo lib connection ata (world st) = (Inr None, w1)"
  | (decode_fault) a w1 e w2 where
      "getAccountInfo lib connection ata (world st) = (Inr (Some a), w1)"
      "getAccount lib connection ata w1 = (Inl e, w2)"
  | (found) a w1 tokenAccount w2 where
      "getAccountInfo lib connection ata (world st) = (Inr (Some a), w1)"
      "getAccount lib connection ata w1 = (Inr tokenAccount, w2)"
proof (cases "getAccountInfo lib connection ata (world st)")
  case (Pair r w1)
  show ?thesis
  proof (cases r)
    case (Inl e)
    with Pair show ?thesis using info_fault by simp
  next
    case (Inr accountInfo)
    show ?thesis
    proof (cases accountInfo)
      case None
      with Pair Inr show ?thesis using absent by simp
    next
      case (Some a)
      obtain d w2 where d: "getAccount lib connection ata w1 = (d, w2)"
        by (cases "getAccount lib connection ata w1")
      show ?thesis
      proof (cases d)
        case (Inl e)
        with Pair Inr Some d show ?thesis using decode_fault by simp
      next
        case (Inr tokenAccount)
        with Pair \<open>r = Inr accountInfo\<close> Some d show ?thesis using found by simp
      qed
    qed
  qed
qed

lemma iteration_segment:
  "\<exists>seg res. trace (console_log '''' (try_catch lib connection i ata st)) = trace st @ seg \<and>
     spec_results seg = [res] \<and> logged seg = spec_render lib i ata res @ [''''] \<and>
     segment ata seg"
proof (cases lib connection ata st rule: try_catch_cases)
  case (info_fault e w1)
  show ?thesis
    by (simp add: try_catch_info_fault [OF info_fault] output_then_separator_def)
next
  case (absent w1)
  show ?thesis
    by (simp add: try_catch_absent [OF absent] output_then_separator_def)
next
  case (decode_fault a w1 e w2)
  show ?thesis
    by (simp add: try_catch_decode_fault [OF decode_fault] output_then_separator_def)
next
  case (found a w1 tokenAccount w2)
  show ?thesis
    by (simp add: try_catch_found [OF found] output_then_separator_def)
qed

subsection \<open>The loop\<close>

lemma loop_stop:
  "\<not> i < length addrs \<Longrightarrow> checkATA_loop lib connection addrs i st = (None, st)"
  by (subst checkATA_loop.simps) simp

lemma loop_throw:
  "i < length addrs \<Longrightarrow> PublicKey lib (addrs ! i) = Inl e \<Longrightarrow>
     checkATA_loop lib connection addrs i st = (Some e, st)"
  by (subst checkATA_loop.simps) simp

lemma loop_step:
  "i < length addrs \<Longrightarrow> PublicKey lib (addrs ! i) = Inr ata \<Longrightarrow>
     checkATA_loop lib connection addrs i st =
     checkATA_loop lib connection addrs (i + 1)
       (console_log '''' (try_catch lib connection i ata st))"
  by (subst checkATA_loop.simps) simp

lemma keys_drop_throw:
  "i < length addrs \<Longrightarrow> PublicKey lib (addrs ! i) = Inl e \<Longrightarrow> keys lib (drop i addrs) = []"
  by (simp flip: Cons_nth_drop_Suc)

lemma keys_drop_step:
  "i < length addrs \<Longrightarrow> PublicKey lib (addrs ! i) = Inr ata \<Longrightarrow>
     keys lib (drop i addrs) = ata # keys lib (drop (i + 1) addrs)"
  by (simp flip: Cons_nth_drop_Suc)

lemma rendering_Cons:
  "spec_rendering lib i (k # ks) (res # rs) =
     spec_render lib i k res @ [''''] @ spec_rendering lib (i + 1) ks rs"
proof -
  have "[i..<i + length (k # ks)] = i # [i + 1..<i + 1 + length ks]"
    by (simp add: upt_conv_Cons del: upt_Suc)
  then show ?thesis
    by (simp add: spec_rendering_def del: upt_Suc)
qed

lemma loop_run:
  "\<exists>T. trace (snd (checkATA_loop lib connection addrs i st)) = trace st @ T \<and>
     length (spec_results T) = length (keys lib (drop i addrs)) \<and>
     logged T = spec_rendering lib i (keys lib (drop i addrs)) (spec_results T) \<and>
     (\<exists>segs. T = concat segs \<and> list_all2 segment (keys lib (drop i addrs)) segs)"
proof (induction lib connection addrs i st rule: checkATA_loop.induct)
  case (1 lib connection addrs i st)
  show ?case
  proof (cases "i < length addrs")
    case False
    then show ?thesis
      by (simp add: loop_stop spec_rendering_def)
  next
    case True
    show ?thesis
    proof (cases "PublicKey lib (addrs ! i)")
      case (Inl e)
      with True show ?thesis
        by (simp add: loop_throw keys_drop_throw spec_rendering_def)
    next
      case (Inr ata)
      let ?st2 = "console_log '''' (try_catch lib connection i ata st)"
      let ?ks = "keys lib (drop (i + 1) addrs)"
      obtain seg res where seg: "trace ?st2 = trace st @ seg" "spec_results seg = [res]"
        "logged seg = spec_render lib i ata res @ ['''']" "segment ata seg"
        using iteration_segment [of lib connection i ata st] by blast
      obtain T segs where T: "trace (snd (checkATA_loop lib connection addrs (i + 1) ?st2)) = trace ?st2 @ T"
        "length (spec_results T) = length ?ks"
        "logged T = spec_rendering lib (i + 1) ?ks (spec_results T)"
        "T = concat segs" "list_all2 segment ?ks segs"
        using "1.IH" [OF True Inr] by blast
      have ks: "keys lib (drop i addrs) = ata # ?ks"
        using True Inr by (rule keys_drop_step)
      have "trace (snd (checkATA_loop lib connection addrs i st)) = trace st @ (seg @ T)"
        using loop_step [OF True Inr] seg(1) T(1) by simp
      moreover have "length (spec_results (seg @ T)) = length (keys lib (drop i addrs))"
        using seg(2) T(2) ks by simp
      moreover have "logged (seg @ T) =
          spec_rendering lib i (keys lib (drop i addrs)) (spec_results (seg @ T))"
        using seg(2,3) T(3) ks by (simp add: rendering_Cons)
      moreover have "seg @ T = concat (seg # segs) \<and>
          list_all2 segment (keys lib (drop i addrs)) (seg # segs)"
        using seg(4) T(4,5) ks by simp
      ultimately show ?thesis by blast
    qed
  qed
qed


lemma loop_fulfilled:
  "list_all (is_valid lib) (drop i addrs) \<Longrightarrow> fst (checkATA_loop lib connection addrs i st) = None"
proof (induction lib connection addrs i st rule: checkATA_loop.induct)
  case (1 lib connection addrs i st)
  show ?case
  proof (cases "i < length addrs")
    case False
    then show ?thesis by (simp add: loop_stop)
  next
    case True
    with "1.prems" have v: "is_valid lib (addrs ! i)" "list_all (is_valid lib) (drop (i + 1) addrs)"
      by (simp_all flip: Cons_nth_drop_Suc)
    then obtain ata where ata: "PublicKey lib (addrs ! i) = Inr ata"
      by (auto simp: is_valid_def split: sum.splits)
    show ?thesis
      using "1.IH" [OF True ata v(2)] by (simp add: loop_step [OF True ata])
  qed
qed

lemma keys_all_valid:
  "list_all (is_valid lib) addrs \<Longrightarrow> keys lib addrs = map (\<lambda>s. projr (PublicKey lib s)) addrs"
  by (induction addrs) (auto simp: is_valid_def split: sum.splits)

lemma loop_take:
  assumes "n < length addrs" and "PublicKey lib (addrs ! n) = Inl e"
    and "list_all (is_valid lib) (take n addrs)"
  shows "i \<le> n \<Longrightarrow> checkATA_loop lib connection addrs i st =
     (Some e, snd (checkATA_loop lib connection (take n addrs) i st))"
proof (induction "n - i" arbitrary: i st)
  case 0
  then have "i = n" by simp
  then show ?case
    using assms(1,2) by (simp add: loop_throw loop_stop)
next
  case (Suc d)
  then have i: "i < n" by simp
  with assms(1) have il: "i < length addrs" by simp
  from i il assms(3) have "is_valid lib (addrs ! i)"
    by (simp add: list_all_length)
  then obtain ata where ata: "PublicKey lib (addrs ! i) = Inr ata"
    by (auto simp: is_valid_def split: sum.splits)
  have it: "i < length (take n addrs)" using i assms(1) by simp
  have ata': "PublicKey lib (take n addrs ! i) = Inr ata" using i ata by simp
  have "d = n - (i + 1)" "i + 1 \<le> n" using Suc.hyps(2) i by simp_all
  from Suc.hyps(1) [OF this] show ?case
    by (simp add: loop_step [OF il ata] loop_step [OF it ata'])
qed

subsection \<open>The block of one identifier\<close>

lemma stdout_state [simp]: "stdout \<lparr>world = w, trace = evs\<rparr> = logged evs"
  by (simp add: stdout_def)

lemma block_info_fault:
  "getAccountInfo lib connection ata (world st) = (Inl e, w1) \<Longrightarrow>
     block lib connection i ata st =
       [warning_sign @ '' ATA '' @ decimal (i + 1) @ '': '' @ toString lib ata @
        '' - '' @ error_text @ '': '' @ message e]"
  by (simp add: block_def try_catch_info_fault) (simp add: stdout_def)

lemma block_absent:
  "getAccountInfo lib connection ata (world st) = (Inr None, w1) \<Longrightarrow>
     block lib connection i ata st =
       [cross_mark @ '' ATA '' @ decimal (i + 1) @ '': '' @ toString lib ata @
        '' - '' @ not_found_text]"
  by (simp add: block_def try_catch_absent) (simp add: stdout_def)

lemma block_decode_fault:
  "getAccountInfo lib connection ata (world st) = (Inr (Some a), w1) \<Longrightarrow>
   getAccount lib connection ata w1 = (Inl e, w2) \<Longrightarrow>
     block lib connection i ata st =
       [warning_sign @ '' ATA '' @ decimal (i + 1) @ '': '' @ toString lib ata @
        '' - '' @ error_text @ '': '' @ message e]"
  by (simp add: block_def try_catch_decode_fault) (simp add: stdout_def)

lemma block_found:
  "getAccountInfo lib connection ata (world st) = (Inr (Some a), w1) \<Longrightarrow>
   getAccount lib connection ata w1 = (Inr tokenAccount, w2) \<Longrightarrow>
     block lib connection i ata st =
       [check_mark @ '' ATA '' @ decimal (i + 1) @ '': '' @ toString lib ata,
        ''   Mint: '' @ toString lib (mint tokenAccount),
        ''   Balance: '' @ decimal (amount tokenAccount),
        ''   Owner: '' @ toString lib (owner tokenAccount)]"
  by (simp add: block_def try_catch_found) (simp add: stdout_def)

lemma stdout_try_catch:
  "stdout (try_catch lib connection i ata st) = stdout st @ block lib connection i ata st"
proof (cases lib connection ata st rule: try_catch_cases)
  case (info_fault e w1)
  show ?thesis
    unfolding block_info_fault [OF info_fault]
    by (simp add: try_catch_info_fault [OF info_fault]) (simp add: stdout_def)
next
  case (absent w1)
  show ?thesis
    unfolding block_absent [OF absent]
    by (simp add: try_catch_absent [OF absent]) (simp add: stdout_def)
next
  case (decode_fault a w1 e w2)
  show ?thesis
    unfolding block_decode_fault [OF decode_fault]
    by (simp add: try_catch_decode_fault [OF decode_fault]) (simp add: stdout_def)
next
  case (found a w1 tokenAccount w2)
  show ?thesis
    unfolding block_found [OF found]
    by (simp add: try_catch_found [OF found]) (simp add: stdout_def)
qed

lemma not_detail_warning:
  "\<not> is_mint_line (warning_sign @ s)" "\<not> is_balance_line (warning_sign @ s)"
  "\<not> is_owner_line (warning_sign @ s)"
  by (simp_all add: is_mint_line_def is_balance_line_def is_owner_line_def warning_sign_def)

lemma not_detail_cross:
  "\<not> is_mint_line (cross_mark @ s)" "\<not> is_balance_line (cross_mark @ s)"
  "\<not> is_owner_line (cross_mark @ s)"
  by (simp_all add: is_mint_line_def is_balance_line_def is_owner_line_def cross_mark_def)

lemma not_detail_check:
  "\<not> is_mint_line (check_mark @ s)" "\<not> is_balance_line (check_mark @ s)"
  "\<not> is_owner_line (check_mark @ s)"
  by (simp_all add: is_mint_line_def is_balance_line_def is_owner_line_def check_mark_def)

lemma detail_lines:
  "is_mint_line (''   Mint: '' @ s)" "\<not> is_mint_line (''   Balance: '' @ s)"
  "\<not> is_mint_line (''   Owner: '' @ s)"
  "\<not> is_balance_line (''   Mint: '' @ s)" "is_balance_line (''   Balance: '' @ s)"
  "\<not> is_balance_line (''   Owner: '' @ s)"
  "\<not> is_owner_line (''   Mint: '' @ s)" "\<not> is_owner_line (''   Balance: '' @ s)"
  "is_owner_line (''   Owner: '' @ s)"
  by (simp_all add: is_mint_line_def is_balance_line_def is_owner_line_def)

lemma sublist_in_line: "sublist x (a @ b @ c @ d @ x @ e)"
  using sublist_appendI [of x "a @ b @ c @ d" e] by simp

lemma suffix_of_line: "suffix x (a @ b @ c @ d @ e @ f @ g @ h @ x)"
  using suffixI [of "a @ b @ c @ d @ e @ f @ g @ h @ x" "a @ b @ c @ d @ e @ f @ g @ h" x] by simp

lemma suffix_of_line6: "suffix x (a @ b @ c @ d @ e @ f @ x)"
  using suffixI [of "a @ b @ c @ d @ e @ f @ x" "a @ b @ c @ d @ e @ f" x] by simp

subsection \<open>The whole run\<close>

lemma checkATA_run:
  "\<exists>T. trace (snd (checkATA lib connection addrs st)) = trace st @ ConsoleLog header # T \<and>
     length (spec_results T) = length (keys lib addrs) \<and>
     logged T = spec_rendering lib 0 (keys lib addrs) (spec_results T) \<and>
     (\<exists>segs. T = concat segs \<and> list_all2 segment (keys lib addrs) segs)"
  using loop_run [of lib connection addrs 0 "console_log header st"]
  by (simp add: checkATA_def)

lemma checkATA_fulfilled:
  "list_all (is_valid lib) addrs \<Longrightarrow> fst (checkATA lib connection addrs st) = None"
  by (simp add: checkATA_def loop_fulfilled)

lemma checkATA_take:
  assumes "n < length addrs" and "PublicKey lib (addrs ! n) = Inl e"
    and "list_all (is_valid lib) (take n addrs)"
  shows "checkATA lib connection addrs st =
     (Some e, snd (checkATA lib connection (take n addrs) st))"
  using loop_take [OF assms, of 0] by (simp add: checkATA_def)

lemma spec_render_not_blank: "'''' \<notin> set (spec_render lib i k res)"
  by (cases res) (simp_all add: check_mark_def cross_mark_def warning_sign_def)

lemma rendering_Nil [simp]: "spec_rendering lib i [] rs = []"
  by (simp add: spec_rendering_def)

lemma count_blank_rendering:
  "length rs = length ks \<Longrightarrow> count_list (spec_rendering lib i ks rs) '''' = length ks"
proof (induction ks arbitrary: i rs)
  case Nil
  then show ?case by simp
next
  case (Cons k ks)
  then obtain res rs' where rs: "rs = res # rs'" "length rs' = length ks"
    by (cases rs) simp_all
  have "count_list (spec_render lib i k res) '''' = 0"
    using spec_render_not_blank [of lib i k res] by (simp add: count_list_0_iff)
  then show ?case
    using Cons.IH [OF rs(2), of "i + 1"] by (simp add: rs(1) rendering_Cons)
qed

lemma header_not_blank: "header \<noteq> ''''"
  by (simp add: header_def)

lemma block_not_blank: "block lib connection i ata st \<noteq> [] \<and> '''' \<notin> set (block lib connection i ata st)"
proof (cases lib connection ata st rule: try_catch_cases)
  case (info_fault e w1)
  show ?thesis
    unfolding block_info_fault [OF info_fault] by (simp add: warning_sign_def)
next
  case (absent w1)
  show ?thesis
    unfolding block_absent [OF absent] by (simp add: cross_mark_def)
next
  case (decode_fault a w1 e w2)
  show ?thesis
    unfolding block_decode_fault [OF decode_fault] by (simp add: warning_sign_def)
next
  case (found a w1 tokenAccount w2)
  show ?thesis
    unfolding block_found [OF found] by (simp add: check_mark_def)
qed

lemma script_connected:
  "Connection lib endpoint ''confirmed'' = Inr connection \<Longrightarrow>
   script lib addrs w =
     (case checkATA lib connection addrs \<lparr>world = w, trace = []\<rparr> of
        (Some error, st) \<Rightarrow> (console_error error st, 0)
      | (None, st) \<Rightarrow> (st, 0))"
  by (simp add: script_def)

lemma mock_simps:
  "Connection mock url commitment = Inr ()"
  "PublicKey mock s =
     (if s \<in> set [''Found1'', ''Missing2'', ''Broken3'', ''Down4''] then Inr s
      else Inl (Fault ''Invalid public key input''))"
  "toString mock k = k"
  "getAccountInfo mock c k w =
     (if k = ''Down4'' then Inl (Fault ''fetch failed'')
      else if k = ''Missing2'' then Inr None
      else Inr (Some ()), w + 1)"
  "getAccount mock c k w =
     (if k = ''Found1''
      then Inr \<lparr>mint = ''MintA'', owner = ''OwnerB'', amount = 18446744073709551615\<rparr>
      else Inl (Fault ''TokenInvalidAccountOwnerError''), w + 1)"
  by (simp_all add: mock_def)

lemmas run_simps =
  checkATA_def checkATA_loop.simps try_catch_def try_block_def await_getAccountInfo_def
  await_getAccount_def console_log_def console_error_def mock_simps decimal.simps Let_def

lemma run_scenario:
  "checkATA mock () [''Found1'', ''Missing2'', ''Broken3''] \<lparr>world = 0, trace = []\<rparr> =
     (None, \<lparr>world = 5, trace =
        [ConsoleLog header,
         QueryAccountInfo ''Found1'' (Inr (Some ())),
         QueryAccount ''Found1''
           (Inr \<lparr>mint = ''MintA'', owner = ''OwnerB'', amount = 18446744073709551615\<rparr>),
         ConsoleLog (check_mark @ '' ATA 1: Found1''),
         ConsoleLog ''   Mint: MintA'',
         ConsoleLog ''   Balance: 18446744073709551615'',
         ConsoleLog ''   Owner: OwnerB'',
         ConsoleLog '''',
         QueryAccountInfo ''Missing2'' (Inr None),
         ConsoleLog (cross_mark @ '' ATA 2: Missing2 - '' @ not_found_text),
         ConsoleLog '''',
         QueryAccountInfo ''Broken3'' (Inr (Some ())),
         QueryAccount ''Broken3'' (Inl (Fault ''TokenInvalidAccountOwnerError'')),
         ConsoleLog (warning_sign @ '' ATA 3: Broken3 - '' @ error_text @
                     '': TokenInvalidAccountOwnerError''),
         ConsoleLog '''']\<rparr>)"
  by (simp add: run_simps)

lemma run_invalid_first:
  "checkATA mock () [''Bad0'', ''Found1''] \<lparr>world = 0, trace = []\<rparr> =
     (Some (Fault ''Invalid public key input''), \<lparr>world = 0, trace = [ConsoleLog header]\<rparr>)"
  by (simp add: run_simps)

lemma strict_refuses: "Connection strict endpoint ''confirmed'' =
    Inl (Fault ''Endpoint URL must start with http: or https:'')"
  by (simp add: strict_def endpoint_def)

lemma loop_take_any:
  assumes "n < length addrs" and "PublicKey lib (addrs ! n) = Inl e"
  shows "i \<le> n \<Longrightarrow>
     snd (checkATA_loop lib connection addrs i st) =
       snd (checkATA_loop lib connection (take n addrs) i st) \<and>
     fst (checkATA_loop lib connection addrs i st) \<noteq> None"
proof (induction "n - i" arbitrary: i st)
  case 0
  then have "i = n" by simp
  then show ?case
    using assms by (simp add: loop_throw loop_stop)
next
  case (Suc d)
  then have i: "i < n" by simp
  with assms(1) have il: "i < length addrs" by simp
  have it: "i < length (take n addrs)" using i assms(1) by simp
  have nth: "take n addrs ! i = addrs ! i" using i by simp
  show ?case
  proof (cases "PublicKey lib (addrs ! i)")
    case (Inl e')
    then show ?thesis
      using loop_throw [OF il Inl] loop_throw [OF it, of lib e'] nth by simp
  next
    case (Inr ata)
    have ata': "PublicKey lib (take n addrs ! i) = Inr ata" using Inr nth by simp
    have "d = n - (i + 1)" "i + 1 \<le> n" using Suc.hyps(2) i by simp_all
    from Suc.hyps(1) [OF this] show ?thesis
      by (simp add: loop_step [OF il Inr] loop_step [OF it ata'])
  qed
qed

lemma checkATA_take_any:
  assumes "n < length addrs" and "PublicKey lib (addrs ! n) = Inl e"
  shows "snd (checkATA lib connection addrs st) =
       snd (checkATA lib connection (take n addrs) st) \<and>
     fst (checkATA lib connection addrs st) \<noteq> None"
  using loop_take_any [OF assms, of 0] by (simp add: checkATA_def)

subsection \<open>Identifiers and their results\<close>

lemma queried_append [simp]: "queried (xs @ ys) = queried xs @ queried ys"
  by (induction xs rule: queried.induct) simp_all

lemma spec_inspections_append [simp]:
  "spec_inspections (xs @ ys) = spec_inspections xs @ spec_inspections ys"
  by (induction xs) (simp_all split: option.split)

lemma iteration_inspection:
  "\<exists>seg res. trace (console_log '''' (try_catch lib connection i ata st)) = trace st @ seg \<and>
     spec_inspections seg = [(ata, res)] \<and> queried seg = [ata] \<and>
     logged seg = spec_render lib i ata res @ ['''']"
proof (cases lib connection ata st rule: try_catch_cases)
  case (info_fault e w1)
  show ?thesis
    by (simp add: try_catch_info_fault [OF info_fault])
next
  case (absent w1)
  show ?thesis
    by (simp add: try_catch_absent [OF absent])
next
  case (decode_fault a w1 e w2)
  show ?thesis
    by (simp add: try_catch_decode_fault [OF decode_fault])
next
  case (found a w1 tokenAccount w2)
  show ?thesis
    by (simp add: try_catch_found [OF found])
qed

lemma loop_inspections:
  "\<exists>T. trace (snd (checkATA_loop lib connection addrs i st)) = trace st @ T \<and>
     map fst (spec_inspections T) = keys lib (drop i addrs) \<and>
     queried T = keys lib (drop i addrs) \<and>
     logged T =
       spec_rendering lib i (keys lib (drop i addrs)) (map snd (spec_inspections T))"
proof (induction lib connection addrs i st rule: checkATA_loop.induct)
  case (1 lib connection addrs i st)
  show ?case
  proof (cases "i < length addrs")
    case False
    then show ?thesis
      by (simp add: loop_stop)
  next
    case True
    show ?thesis
    proof (cases "PublicKey lib (addrs ! i)")
      case (Inl e)
      with True show ?thesis
        by (simp add: loop_throw keys_drop_throw)
    next
      case (Inr ata)
      let ?st2 = "console_log '''' (try_catch lib connection i ata st)"
      let ?ks = "keys lib (drop (i + 1) addrs)"
      obtain seg res where seg: "trace ?st2 = trace st @ seg"
        "spec_inspections seg = [(ata, res)]" "queried seg = [ata]"
        "logged seg = spec_render lib i ata res @ ['''']"
        using iteration_inspection [of lib connection i ata st] by blast
      obtain T where T:
        "trace (snd (checkATA_loop lib connection addrs (i + 1) ?st2)) = trace ?st2 @ T"
        "map fst (spec_inspections T) = ?ks" "queried T = ?ks"
        "logged T = spec_rendering lib (i + 1) ?ks (map snd (spec_inspections T))"
        using "1.IH" [OF True Inr] by blast
      have ks: "keys lib (drop i addrs) = ata # ?ks"
        using True Inr by (rule keys_drop_step)
      have "trace (snd (checkATA_loop lib connection addrs i st)) = trace st @ (seg @ T)"
        using loop_step [OF True Inr] seg(1) T(1) by simp
      moreover have "map fst (spec_inspections (seg @ T)) = keys lib (drop i addrs)"
        using seg(2) T(2) ks by simp
      moreover have "queried (seg @ T) = keys lib (drop i addrs)"
        using seg(3) T(3) ks by simp
      moreover have "logged (seg @ T) =
          spec_rendering lib i (keys lib (drop i addrs)) (map snd (spec_inspections (seg @ T)))"
        using seg(2,4) T(4) ks by (simp add: rendering_Cons)
      ultimately show ?thesis by blast
    qed
  qed
qed

lemma checkATA_inspections:
  "\<exists>T. trace (snd (checkATA lib connection addrs st)) = trace st @ ConsoleLog header # T \<and>
     map fst (spec_inspections T) = keys lib addrs \<and>
     queried T = keys lib addrs \<and>
     logged T = spec_rendering lib 0 (keys lib addrs) (map snd (spec_inspections T))"
  using loop_inspections [of lib connection addrs 0 "console_log header st"]
  by (simp add: checkATA_def)

lemma keys_valid:
  "list_all (is_valid lib) addrs \<Longrightarrow>
     list_all2 (\<lambda>s k. PublicKey lib s = Inr k) addrs (keys lib addrs)"
  by (induction addrs) (auto simp: is_valid_def split: sum.splits)

lemma try_catch_first_event:
  "\<exists>evs. trace (try_catch lib connection i ata st) =
     trace st @ QueryAccountInfo ata (fst (getAccountInfo lib connection ata (world st))) # evs"
proof (cases lib connection ata st rule: try_catch_cases)
  case (info_fault e w1)
  show ?thesis
    by (simp add: try_catch_info_fault [OF info_fault] info_fault)
next
  case (absent w1)
  show ?thesis
    by (simp add: try_catch_absent [OF absent] absent)
next
  case (decode_fault a w1 e w2)
  show ?thesis
    by (simp add: try_catch_decode_fault [OF decode_fault] decode_fault(1))
next
  case (found a w1 tokenAccount w2)
  show ?thesis
    by (simp add: try_catch_found [OF found] found(1))
qed

lemma loop_first_event:
  assumes "i < length addrs" and "PublicKey lib (addrs ! i) = Inr ata"
  shows "\<exists>T. trace (snd (checkATA_loop lib connection addrs i st)) =
     trace st @ QueryAccountInfo ata (fst (getAccountInfo lib connection ata (world st))) # T"
proof -
  let ?st2 = "console_log '''' (try_catch lib connection i ata st)"
  obtain evs where evs: "trace (try_catch lib connection i ata st) =
     trace st @ QueryAccountInfo ata (fst (getAccountInfo lib connection ata (world st))) # evs"
    using try_catch_first_event [of lib connection i ata st] by blast
  obtain T where T:
    "trace (snd (checkATA_loop lib connection addrs (i + 1) ?st2)) = trace ?st2 @ T"
    using loop_inspections [of lib connection addrs "i + 1" ?st2] by blast
  have "trace (snd (checkATA_loop lib connection addrs i st)) =
     trace st @ QueryAccountInfo ata (fst (getAccountInfo lib connection ata (world st))) #
       (evs @ ConsoleLog '''' # T)"
    using loop_step [OF assms] T evs by simp
  then show ?thesis by blast
qed

text \<open>What the loop does after the iteration of position \<open>i\<close>.\<close>

lemma loop_continues:
  assumes "i < length addrs" and "PublicKey lib (addrs ! i) = Inr ata"
  shows "(\<exists>T. trace (snd (checkATA_loop lib connection addrs i st)) =
        trace (console_log '''' (try_catch lib connection i ata st)) @ T \<and>
        queried T = keys lib (drop (i + 1) addrs)) \<and>
     (i + 1 < length addrs \<and> PublicKey lib (addrs ! (i + 1)) = Inr ata' \<longrightarrow>
        (\<exists>T. trace (snd (checkATA_loop lib connection addrs i st)) =
           trace (console_log '''' (try_catch lib connection i ata st)) @
           QueryAccountInfo ata'
             (fst (getAccountInfo lib connection ata'
                (world (try_catch lib connection i ata st)))) # T))"
proof -
  let ?st2 = "console_log '''' (try_catch lib connection i ata st)"
  have "\<exists>T. trace (snd (checkATA_loop lib connection addrs i st)) = trace ?st2 @ T \<and>
        queried T = keys lib (drop (i + 1) addrs)"
    using loop_inspections [of lib connection addrs "i + 1" ?st2] loop_step [OF assms]
    by auto
  moreover have "\<exists>T. trace (snd (checkATA_loop lib connection addrs i st)) =
           trace ?st2 @ QueryAccountInfo ata'
             (fst (getAccountInfo lib connection ata'
                (world (try_catch lib connection i ata st)))) # T"
    if "i + 1 < length addrs" "PublicKey lib (addrs ! (i + 1)) = Inr ata'"
    using loop_first_event [OF that, of connection ?st2] loop_step [OF assms]
    by simp
  ultimately show ?thesis by blast
qed

section \<open>The claims\<close>

text \<open>
  C1, as amended. The exit code is not zero exactly when creating the connection throws
  while the module body runs. A fault that leaves \<^verbatim>\<open>checkATA\<close> outside the try
  statement of the loop rejects its promise; the handler at the top level writes it with
  \<^verbatim>\<open>console.error\<close> and the process still ends with code zero.
\<close>

theorem exit_code_zero_unless_startup_fault:
  "(snd (script lib addrs w) \<noteq> 0) = isl (Connection lib endpoint ''confirmed'') \<and>
   (Connection lib endpoint ''confirmed'' = Inr connection \<and>
    escaped_fault lib addrs w = Some e \<longrightarrow>
      snd (script lib addrs w) = 0 \<and>
      last (trace (fst (script lib addrs w))) = ConsoleError e)"
proof -
  have "(snd (script lib addrs w) \<noteq> 0) = isl (Connection lib endpoint ''confirmed'')"
    by (simp add: script_def split: sum.split prod.split option.split)
  moreover have "snd (script lib addrs w) = 0 \<and>
      last (trace (fst (script lib addrs w))) = ConsoleError e"
    if "Connection lib endpoint ''confirmed'' = Inr connection"
      and "escaped_fault lib addrs w = Some e"
    using that
    by (cases "checkATA lib connection addrs \<lparr>world = w, trace = []\<rparr>")
       (simp add: script_def escaped_fault_def console_error_def)
  ultimately show ?thesis by blast
qed

theorem exit_code_zero_unless_startup_fault_witness:
  "Connection mock endpoint ''confirmed'' = Inr () \<and>
   escaped_fault mock [''Bad0'', ''Found1''] 0 = Some (Fault ''Invalid public key input'') \<and>
   snd (script mock [''Bad0'', ''Found1''] 0) = 0 \<and>
   last (trace (fst (script mock [''Bad0'', ''Found1''] 0))) =
     ConsoleError (Fault ''Invalid public key input'') \<and>
   isl (Connection strict endpoint ''confirmed'') \<and>
   snd (script strict [''Found1''] 0) \<noteq> 0"
proof -
  have h1: "Connection mock endpoint ''confirmed'' = Inr ()"
    by (simp add: mock_simps)
  have h2: "escaped_fault mock [''Bad0'', ''Found1''] 0 = Some (Fault ''Invalid public key input'')"
    by (simp add: escaped_fault_def h1 run_invalid_first)
  have h3: "isl (Connection strict endpoint ''confirmed'')"
    by (simp add: strict_refuses)
  show ?thesis
    using h1 h2 h3
      exit_code_zero_unless_startup_fault [of mock "[''Bad0'', ''Found1'']" 0 "()"
        "Fault ''Invalid public key input''"]
      exit_code_zero_unless_startup_fault [of strict "[''Found1'']" 0]
    by simp
qed

text \<open>
  C1 as stated fails. With the address list \<open>Bad0, Found1\<close> the first string is not a
  public key: the fault leaves \<^verbatim>\<open>checkATA\<close> outside the try statement, and the exit code
  is zero.
\<close>

theorem exit_zero_despite_escaped_fault:
  "\<not> ((snd (script mock [''Bad0'', ''Found1''] 0) \<noteq> 0) =
       (escaped_fault mock [''Bad0'', ''Found1''] 0 \<noteq> None))"
  by (simp add: script_def escaped_fault_def mock_simps run_invalid_first)

text \<open>
  C2, as amended. A fault raised by the existence query or by the decode query of
  identifier \<open>i\<close> is caught: it becomes an Error result, rendered as the error line with
  its message, and the loop goes on. What the run does after the blank line starts,
  when position \<open>i + 1\<close> holds a public key, with the existence query of identifier
  \<open>i + 1\<close>, and the later identifiers are queried, in order, up to the first string that
  is not a public key. When every address is a public key, no fault of a query makes
  the run fail and every identifier is queried, whatever the ledger answers.
\<close>

theorem query_faults_are_contained:
  assumes "i < length addrs" and "PublicKey lib (addrs ! i) = Inr ata"
    and "getAccountInfo lib connection ata (world st) = (Inl e, w1) \<or>
         (\<exists>a w0. getAccountInfo lib connection ata (world st) = (Inr (Some a), w0) \<and>
                  getAccount lib connection ata w0 = (Inl e, w1))"
  shows "spec_results (trace (try_catch lib connection i ata st)) =
       spec_results (trace st) @ [Error (message e)] \<and>
     block lib connection i ata st =
       [warning_sign @ '' ATA '' @ decimal (i + 1) @ '': '' @ toString lib ata @
        '' - '' @ error_text @ '': '' @ message e] \<and>
     checkATA_loop lib connection addrs i st =
       checkATA_loop lib connection addrs (i + 1)
         (console_log '''' (try_catch lib connection i ata st)) \<and>
     (\<exists>T. trace (snd (checkATA_loop lib connection addrs i st)) =
        trace (console_log '''' (try_catch lib connection i ata st)) @ T \<and>
        queried T = keys lib (drop (i + 1) addrs)) \<and>
     (i + 1 < length addrs \<and> PublicKey lib (addrs ! (i + 1)) = Inr ata' \<longrightarrow>
        (\<exists>T. trace (snd (checkATA_loop lib connection addrs i st)) =
           trace (console_log '''' (try_catch lib connection i ata st)) @
           QueryAccountInfo ata' (fst (getAccountInfo lib connection ata' w1)) # T)) \<and>
     (list_all (is_valid lib) addrs \<longrightarrow>
        fst (checkATA lib connection addrs st0) = None \<and>
        queried (trace (snd (checkATA lib connection addrs \<lparr>world = w, trace = []\<rparr>))) =
          keys lib addrs \<and>
        list_all2 (\<lambda>s k. PublicKey lib s = Inr k) addrs (keys lib addrs))"
proof -
  have a: "spec_results (trace (try_catch lib connection i ata st)) =
       spec_results (trace st) @ [Error (message e)] \<and>
     block lib connection i ata st =
       [warning_sign @ '' ATA '' @ decimal (i + 1) @ '': '' @ toString lib ata @
        '' - '' @ error_text @ '': '' @ message e] \<and>
     world (try_catch lib connection i ata st) = w1"
    using assms(3)
  proof (elim disjE exE conjE)
    assume h: "getAccountInfo lib connection ata (world st) = (Inl e, w1)"
    show ?thesis
      by (simp add: block_info_fault [OF h] try_catch_info_fault [OF h])
  next
    fix a w0
    assume h: "getAccountInfo lib connection ata (world st) = (Inr (Some a), w0)"
      "getAccount lib connection ata w0 = (Inl e, w1)"
    show ?thesis
      by (simp add: block_decode_fault [OF h] try_catch_decode_fault [OF h])
  qed
  have c: "(\<exists>T. trace (snd (checkATA_loop lib connection addrs i st)) =
        trace (console_log '''' (try_catch lib connection i ata st)) @ T \<and>
        queried T = keys lib (drop (i + 1) addrs)) \<and>
     (i + 1 < length addrs \<and> PublicKey lib (addrs ! (i + 1)) = Inr ata' \<longrightarrow>
        (\<exists>T. trace (snd (checkATA_loop lib connection addrs i st)) =
           trace (console_log '''' (try_catch lib connection i ata st)) @
           QueryAccountInfo ata' (fst (getAccountInfo lib connection ata' w1)) # T))"
    using loop_continues [OF assms(1,2), of connection st ata'] a by simp
  have g: "fst (checkATA lib connection addrs st0) = None \<and>
        queried (trace (snd (checkATA lib connection addrs \<lparr>world = w, trace = []\<rparr>))) =
          keys lib addrs \<and>
        list_all2 (\<lambda>s k. PublicKey lib s = Inr k) addrs (keys lib addrs)"
    if v: "list_all (is_valid lib) addrs"
  proof -
    obtain T where T:
      "trace (snd (checkATA lib connection addrs \<lparr>world = w, trace = []\<rparr>)) =
         ConsoleLog header # T" "queried T = keys lib addrs"
      using checkATA_inspections [of lib connection addrs "\<lparr>world = w, trace = []\<rparr>"]
      by auto
    show ?thesis
      using checkATA_fulfilled [OF v] keys_valid [OF v] by (simp add: T)
  qed
  from a c g loop_step [OF assms(1,2), of connection st] show ?thesis by blast
qed

theorem query_faults_are_contained_witness:
  "1 < length [''Down4'', ''Broken3'', ''Found1''] \<and>
   PublicKey mock ([''Down4'', ''Broken3'', ''Found1''] ! 1) = Inr ''Broken3'' \<and>
   getAccountInfo mock () ''Broken3'' 1 = (Inr (Some ()), 2) \<and>
   getAccount mock () ''Broken3'' 2 = (Inl (Fault ''TokenInvalidAccountOwnerError''), 3) \<and>
   1 + 1 < length [''Down4'', ''Broken3'', ''Found1''] \<and>
   PublicKey mock ([''Down4'', ''Broken3'', ''Found1''] ! (1 + 1)) = Inr ''Found1'' \<and>
   list_all (is_valid mock) [''Down4'', ''Broken3'', ''Found1''] \<and>
   block mock () 1 ''Broken3'' \<lparr>world = 1, trace = []\<rparr> =
     [warning_sign @ '' ATA 2: Broken3 - '' @ error_text @ '': TokenInvalidAccountOwnerError''] \<and>
   (\<exists>T. trace (snd (checkATA_loop mock () [''Down4'', ''Broken3'', ''Found1''] 1
           \<lparr>world = 1, trace = []\<rparr>)) =
      [QueryAccountInfo ''Broken3'' (Inr (Some ())),
       QueryAccount ''Broken3'' (Inl (Fault ''TokenInvalidAccountOwnerError'')),
       ConsoleLog (warning_sign @ '' ATA 2: Broken3 - '' @ error_text @
                   '': TokenInvalidAccountOwnerError''),
       ConsoleLog '''',
       QueryAccountInfo ''Found1'' (Inr (Some ()))] @ T) \<and>
   fst (checkATA mock () [''Down4'', ''Broken3'', ''Found1''] \<lparr>world = 0, trace = []\<rparr>) = None \<and>
   queried (trace (snd (checkATA mock () [''Down4'', ''Broken3'', ''Found1'']
      \<lparr>world = 0, trace = []\<rparr>))) = [''Down4'', ''Broken3'', ''Found1'']"
proof -
  have h1: "1 < length [''Down4'', ''Broken3'', ''Found1'']" by simp
  have h2: "PublicKey mock ([''Down4'', ''Broken3'', ''Found1''] ! 1) = Inr ''Broken3''"
    by (simp add: mock_simps)
  have h3: "getAccountInfo mock () ''Broken3''
        (world (\<lparr>world = 1, trace = []\<rparr> :: (nat, string, unit) state)) =
        (Inl (Fault ''TokenInvalidAccountOwnerError''), 3) \<or>
      (\<exists>a w0. getAccountInfo mock () ''Broken3''
          (world (\<lparr>world = 1, trace = []\<rparr> :: (nat, string, unit) state)) =
          (Inr (Some a), w0) \<and>
        getAccount mock () ''Broken3'' w0 = (Inl (Fault ''TokenInvalidAccountOwnerError''), 3))"
    by (simp add: mock_simps)
  have h4: "list_all (is_valid mock) [''Down4'', ''Broken3'', ''Found1'']"
    by (simp add: is_valid_def mock_simps)
  have h5: "1 + 1 < length [''Down4'', ''Broken3'', ''Found1'']" by simp
  have h6: "PublicKey mock ([''Down4'', ''Broken3'', ''Found1''] ! (1 + 1)) = Inr ''Found1''"
    by (simp add: mock_simps)
  have k: "keys mock [''Down4'', ''Broken3'', ''Found1''] = [''Down4'', ''Broken3'', ''Found1'']"
    by (simp add: mock_simps)
  have t: "trace (console_log '''' (try_catch mock () 1 ''Broken3'' \<lparr>world = 1, trace = []\<rparr>)) =
      [QueryAccountInfo ''Broken3'' (Inr (Some ())),
       QueryAccount ''Broken3'' (Inl (Fault ''TokenInvalidAccountOwnerError'')),
       ConsoleLog (warning_sign @ '' ATA 2: Broken3 - '' @ error_text @
                   '': TokenInvalidAccountOwnerError''),
       ConsoleLog '''']"
    by (simp add: run_simps)
  have g: "getAccountInfo mock () ''Broken3'' 1 = (Inr (Some ()), 2)"
    "getAccount mock () ''Broken3'' 2 = (Inl (Fault ''TokenInvalidAccountOwnerError''), 3)"
    "fst (getAccountInfo mock () ''Found1'' 3) = Inr (Some ())"
    "toString mock = (\<lambda>k. k)"
    by (simp_all add: mock_simps fun_eq_iff)
  note th = query_faults_are_contained [OF h1 h2 h3,
      of "''Found1''" "\<lparr>world = 0, trace = []\<rparr>" 0]
  have b: "block mock () 1 ''Broken3'' \<lparr>world = 1, trace = []\<rparr> =
     [warning_sign @ '' ATA 2: Broken3 - '' @ error_text @ '': TokenInvalidAccountOwnerError'']"
    using th [THEN conjunct2, THEN conjunct1] by (simp add: decimal.simps g(4))
  have n: "\<exists>T. trace (snd (checkATA_loop mock () [''Down4'', ''Broken3'', ''Found1''] 1
           \<lparr>world = 1, trace = []\<rparr>)) =
      [QueryAccountInfo ''Broken3'' (Inr (Some ())),
       QueryAccount ''Broken3'' (Inl (Fault ''TokenInvalidAccountOwnerError'')),
       ConsoleLog (warning_sign @ '' ATA 2: Broken3 - '' @ error_text @
                   '': TokenInvalidAccountOwnerError''),
       ConsoleLog '''',
       QueryAccountInfo ''Found1'' (Inr (Some ()))] @ T"
    using th [THEN conjunct2, THEN conjunct2, THEN conjunct2, THEN conjunct2, THEN conjunct1,
        rule_format, OF conjI [OF h5 h6]]
    unfolding t g(3) by simp
  have f: "fst (checkATA mock () [''Down4'', ''Broken3'', ''Found1'']
        \<lparr>world = 0, trace = []\<rparr>) = None \<and>
      queried (trace (snd (checkATA mock () [''Down4'', ''Broken3'', ''Found1'']
        \<lparr>world = 0, trace = []\<rparr>))) = [''Down4'', ''Broken3'', ''Found1'']"
    using th [THEN conjunct2, THEN conjunct2, THEN conjunct2, THEN conjunct2, THEN conjunct2,
        rule_format, OF h4]
    unfolding k by simp
  show ?thesis
    using h1 h2 h4 h5 h6 g(1,2) b n f by simp
qed

text \<open>
  C2 as stated fails for a fault of identifier parsing. With the address list
  \<open>Bad0, Found1\<close> the fault at the first identifier is not caught in the loop: the
  promise is rejected, there is no result and no line besides the header, and \<open>Found1\<close>
  is never processed.
\<close>

theorem parsing_fault_aborts_loop:
  "PublicKey mock ([''Bad0'', ''Found1''] ! 0) = Inl (Fault ''Invalid public key input'') \<and>
   fst (checkATA mock () [''Bad0'', ''Found1''] \<lparr>world = 0, trace = []\<rparr>) =
     Some (Fault ''Invalid public key input'') \<and>
   spec_results (trace (snd (checkATA mock () [''Bad0'', ''Found1'']
     \<lparr>world = 0, trace = []\<rparr>))) = [] \<and>
   stdout (snd (checkATA mock () [''Bad0'', ''Found1''] \<lparr>world = 0, trace = []\<rparr>)) = [header]"
  by (simp add: run_invalid_first mock_simps)

text \<open>
  C3. For every list of identifiers, each configured string being a public key, each
  identifier is processed exactly once and in list order: the existence queries of the
  run are those of the identifiers of the list, one each, in order; the ledger's
  reports give exactly one result per identifier, for that identifier; and the output
  after the header is the rendering of these results, one block per identifier, in the
  order of the list. The run does not fail.
\<close>

theorem one_block_per_identifier:
  assumes "list_all (is_valid lib) addrs"
  shows "list_all2 (\<lambda>s k. PublicKey lib s = Inr k) addrs (keys lib addrs) \<and>
     fst (checkATA lib connection addrs \<lparr>world = w, trace = []\<rparr>) = None \<and>
     queried (trace (snd (checkATA lib connection addrs \<lparr>world = w, trace = []\<rparr>))) =
       keys lib addrs \<and>
     map fst (spec_inspections
         (trace (snd (checkATA lib connection addrs \<lparr>world = w, trace = []\<rparr>)))) =
       keys lib addrs \<and>
     stdout (snd (checkATA lib connection addrs \<lparr>world = w, trace = []\<rparr>)) =
       header # spec_rendering lib 0 (keys lib addrs)
         (map snd (spec_inspections
            (trace (snd (checkATA lib connection addrs \<lparr>world = w, trace = []\<rparr>)))))"
proof -
  obtain T where T:
    "trace (snd (checkATA lib connection addrs \<lparr>world = w, trace = []\<rparr>)) =
       ConsoleLog header # T"
    "map fst (spec_inspections T) = keys lib addrs" "queried T = keys lib addrs"
    "logged T = spec_rendering lib 0 (keys lib addrs) (map snd (spec_inspections T))"
    using checkATA_inspections [of lib connection addrs "\<lparr>world = w, trace = []\<rparr>"]
    by auto
  show ?thesis
    using keys_valid [OF assms] checkATA_fulfilled [OF assms] T(2,3,4)
    by (simp add: stdout_def T(1))
qed

theorem one_block_per_identifier_witness:
  "list_all (is_valid mock) [''Found1'', ''Missing2'', ''Broken3''] \<and>
   keys mock [''Found1'', ''Missing2'', ''Broken3''] = [''Found1'', ''Missing2'', ''Broken3''] \<and>
   queried (trace (snd (checkATA mock () [''Found1'', ''Missing2'', ''Broken3'']
      \<lparr>world = 0, trace = []\<rparr>))) = [''Found1'', ''Missing2'', ''Broken3''] \<and>
   spec_inspections (trace (snd (checkATA mock () [''Found1'', ''Missing2'', ''Broken3'']
      \<lparr>world = 0, trace = []\<rparr>))) =
     [(''Found1'',
       Found \<lparr>mint = ''MintA'', owner = ''OwnerB'', amount = 18446744073709551615\<rparr>),
      (''Missing2'', NotFound),
      (''Broken3'', Error ''TokenInvalidAccountOwnerError'')] \<and>
   stdout (snd (checkATA mock () [''Found1'', ''Missing2'', ''Broken3'']
      \<lparr>world = 0, trace = []\<rparr>)) =
     [header,
      check_mark @ '' ATA 1: Found1'', ''   Mint: MintA'',
      ''   Balance: 18446744073709551615'', ''   Owner: OwnerB'', '''',
      cross_mark @ '' ATA 2: Missing2 - '' @ not_found_text, '''',
      warning_sign @ '' ATA 3: Broken3 - '' @ error_text @ '': TokenInvalidAccountOwnerError'',
      '''']"
proof -
  have h: "list_all (is_valid mock) [''Found1'', ''Missing2'', ''Broken3'']"
    by (simp add: is_valid_def mock_simps)
  show ?thesis
    using h one_block_per_identifier [OF h, of "()" 0]
    by (simp add: run_scenario mock_simps spec_rendering_def decimal.simps)
qed

text \<open>
  C4. When the ledger reports the account present and the decode succeeds, the block of
  the identifier is four lines: the status line, then the mint line, the balance line
  and the owner line. Each of the three appears exactly once and carries the field of
  the decoded record as \<^verbatim>\<open>toString()\<close> renders it; the amount is written in full, so
  that reading the digits back gives the amount.
\<close>

theorem found_block:
  assumes "getAccountInfo lib connection ata (world st) = (Inr (Some a), w1)"
    and "getAccount lib connection ata w1 = (Inr tokenAccount, w2)"
  shows "block lib connection i ata st =
       [check_mark @ '' ATA '' @ decimal (i + 1) @ '': '' @ toString lib ata,
        ''   Mint: '' @ toString lib (mint tokenAccount),
        ''   Balance: '' @ decimal (amount tokenAccount),
        ''   Owner: '' @ toString lib (owner tokenAccount)] \<and>
     filter is_mint_line (block lib connection i ata st) =
       [''   Mint: '' @ toString lib (mint tokenAccount)] \<and>
     filter is_balance_line (block lib connection i ata st) =
       [''   Balance: '' @ decimal (amount tokenAccount)] \<and>
     filter is_owner_line (block lib connection i ata st) =
       [''   Owner: '' @ toString lib (owner tokenAccount)] \<and>
     read_decimal (drop (length ''   Balance: '') (block lib connection i ata st ! 2)) =
       amount tokenAccount"
proof -
  note b = block_found [OF assms]
  have "filter is_mint_line (block lib connection i ata st) =
       [''   Mint: '' @ toString lib (mint tokenAccount)]"
    unfolding b using detail_lines not_detail_check(1) [of "'' ATA '' @ decimal (i + 1) @ '': '' @ toString lib ata"]
    by simp
  moreover have "filter is_balance_line (block lib connection i ata st) =
       [''   Balance: '' @ decimal (amount tokenAccount)]"
    unfolding b using detail_lines not_detail_check(2) [of "'' ATA '' @ decimal (i + 1) @ '': '' @ toString lib ata"]
    by simp
  moreover have "filter is_owner_line (block lib connection i ata st) =
       [''   Owner: '' @ toString lib (owner tokenAccount)]"
    unfolding b using detail_lines not_detail_check(3) [of "'' ATA '' @ decimal (i + 1) @ '': '' @ toString lib ata"]
    by simp
  moreover have "read_decimal (drop (length ''   Balance: '') (block lib connection i ata st ! 2)) =
       amount tokenAccount"
    unfolding b by (simp add: read_decimal_decimal)
  ultimately show ?thesis using b by simp
qed

theorem found_block_witness:
  "getAccountInfo mock () ''Found1'' 0 = (Inr (Some ()), 1) \<and>
   getAccount mock () ''Found1'' 1 =
     (Inr \<lparr>mint = ''MintA'', owner = ''OwnerB'', amount = 18446744073709551615\<rparr>, 2) \<and>
   block mock () 0 ''Found1'' \<lparr>world = 0, trace = []\<rparr> =
     [check_mark @ '' ATA 1: Found1'', ''   Mint: MintA'',
      ''   Balance: 18446744073709551615'', ''   Owner: OwnerB''] \<and>
   read_decimal (drop (length ''   Balance: '')
       (block mock () 0 ''Found1'' \<lparr>world = 0, trace = []\<rparr> ! 2)) = 18446744073709551615"
proof -
  have h1: "getAccountInfo mock () ''Found1''
      (world (\<lparr>world = 0, trace = []\<rparr> :: (nat, string, unit) state)) = (Inr (Some ()), 1)"
    by (simp add: mock_def)
  have h2: "getAccount mock () ''Found1'' 1 =
     (Inr \<lparr>mint = ''MintA'', owner = ''OwnerB'', amount = 18446744073709551615\<rparr>, 2)"
    by (simp add: mock_def)
  have t: "toString mock = (\<lambda>k. k)"
    by (simp add: mock_def)
  show ?thesis
    using h1 h2 found_block [OF h1 h2, of 0] by (clarsimp simp: decimal.simps t)
qed

text \<open>
  C5. When the ledger reports the account absent, the result is NotFound: the block of
  the identifier is the single status line that carries the identifier and ends with
  the not-found notice, and it has no mint, balance or owner line.
\<close>

theorem not_found_block:
  assumes "getAccountInfo lib connection ata (world st) = (Inr None, w1)"
  shows "spec_results (trace (try_catch lib connection i ata st)) =
       spec_results (trace st) @ [NotFound] \<and>
     block lib connection i ata st =
       [cross_mark @ '' ATA '' @ decimal (i + 1) @ '': '' @ toString lib ata @
        '' - '' @ not_found_text] \<and>
     sublist (toString lib ata) (block lib connection i ata st ! 0) \<and>
     suffix not_found_text (block lib connection i ata st ! 0) \<and>
     filter is_mint_line (block lib connection i ata st) = [] \<and>
     filter is_balance_line (block lib connection i ata st) = [] \<and>
     filter is_owner_line (block lib connection i ata st) = []"
proof -
  note b = block_absent [OF assms]
  have "spec_results (trace (try_catch lib connection i ata st)) =
       spec_results (trace st) @ [NotFound]"
    by (simp add: try_catch_absent [OF assms])
  moreover have "sublist (toString lib ata) (block lib connection i ata st ! 0)"
    unfolding b by (simp only: nth_Cons_0 sublist_in_line)
  moreover have "suffix not_found_text (block lib connection i ata st ! 0)"
    unfolding b by (simp only: nth_Cons_0 suffix_of_line6)
  moreover have "filter is_mint_line (block lib connection i ata st) = []"
    "filter is_balance_line (block lib connection i ata st) = []"
    "filter is_owner_line (block lib connection i ata st) = []"
    unfolding b by (simp_all only: filter.simps not_detail_cross if_False)
  ultimately show ?thesis using b by simp
qed

theorem not_found_block_witness:
  "getAccountInfo mock () ''Missing2'' 1 = (Inr None, 2) \<and>
   block mock () 1 ''Missing2'' \<lparr>world = 1, trace = []\<rparr> =
     [cross_mark @ '' ATA 2: Missing2 - '' @ not_found_text] \<and>
   filter is_mint_line (block mock () 1 ''Missing2'' \<lparr>world = 1, trace = []\<rparr>) = []"
proof -
  have h: "getAccountInfo mock () ''Missing2''
      (world (\<lparr>world = 1, trace = []\<rparr> :: (nat, string, unit) state)) = (Inr None, 2)"
    by (simp add: mock_def)
  have t: "toString mock = (\<lambda>k. k)"
    by (simp add: mock_def)
  show ?thesis
    using h not_found_block [OF h, of 1] by (clarsimp simp: decimal.simps t)
qed

text \<open>
  C6. When the ledger reports the account present and the decode query raises a fault,
  the block of the identifier is the single line that carries the identifier and ends
  with the message of the fault, and it has no mint, balance or owner line.
\<close>

theorem decode_fault_block:
  assumes "getAccountInfo lib connection ata (world st) = (Inr (Some a), w1)"
    and "getAccount lib connection ata w1 = (Inl e, w2)"
  shows "block lib connection i ata st =
       [warning_sign @ '' ATA '' @ decimal (i + 1) @ '': '' @ toString lib ata @
        '' - '' @ error_text @ '': '' @ message e] \<and>
     sublist (toString lib ata) (block lib connection i ata st ! 0) \<and>
     suffix (message e) (block lib connection i ata st ! 0) \<and>
     filter is_mint_line (block lib connection i ata st) = [] \<and>
     filter is_balance_line (block lib connection i ata st) = [] \<and>
     filter is_owner_line (block lib connection i ata st) = []"
proof -
  note b = block_decode_fault [OF assms]
  have "sublist (toString lib ata) (block lib connection i ata st ! 0)"
    unfolding b by (simp only: nth_Cons_0 sublist_in_line)
  moreover have "suffix (message e) (block lib connection i ata st ! 0)"
    unfolding b by (simp only: nth_Cons_0 suffix_of_line)
  moreover have "filter is_mint_line (block lib connection i ata st) = []"
    "filter is_balance_line (block lib connection i ata st) = []"
    "filter is_owner_line (block lib connection i ata st) = []"
    unfolding b by (simp_all only: filter.simps not_detail_warning if_False)
  ultimately show ?thesis using b by simp
qed

theorem decode_fault_block_witness:
  "getAccountInfo mock () ''Broken3'' 2 = (Inr (Some ()), 3) \<and>
   getAccount mock () ''Broken3'' 3 = (Inl (Fault ''TokenInvalidAccountOwnerError''), 4) \<and>
   block mock () 2 ''Broken3'' \<lparr>world = 2, trace = []\<rparr> =
     [warning_sign @ '' ATA 3: Broken3 - '' @ error_text @ '': TokenInvalidAccountOwnerError''] \<and>
   filter is_mint_line (block mock () 2 ''Broken3'' \<lparr>world = 2, trace = []\<rparr>) = []"
proof -
  have h1: "getAccountInfo mock () ''Broken3''
      (world (\<lparr>world = 2, trace = []\<rparr> :: (nat, string, unit) state)) = (Inr (Some ()), 3)"
    by (simp add: mock_def)
  have h2: "getAccount mock () ''Broken3'' 3 = (Inl (Fault ''TokenInvalidAccountOwnerError''), 4)"
    by (simp add: mock_def)
  have t: "toString mock = (\<lambda>k. k)"
    by (simp add: mock_def)
  show ?thesis
    using h1 h2 decode_fault_block [OF h1 h2, of 2] by (clarsimp simp: decimal.simps t)
qed

text \<open>
  C7. For each identifier that is a public key, whichever branch its result took: the
  block the try statement writes is not empty and has no blank line, the blank line is
  written right after it, and only then does the loop go on with the next identifier.
  Over the whole run there are as many blank lines as identifiers processed.
\<close>

theorem separator_after_each_block:
  assumes "i < length addrs" and "PublicKey lib (addrs ! i) = Inr ata"
  shows "block lib connection i ata st \<noteq> [] \<and>
     '''' \<notin> set (block lib connection i ata st) \<and>
     stdout (console_log '''' (try_catch lib connection i ata st)) =
       stdout st @ block lib connection i ata st @ [''''] \<and>
     checkATA_loop lib connection addrs i st =
       checkATA_loop lib connection addrs (i + 1)
         (console_log '''' (try_catch lib connection i ata st)) \<and>
     count_list (stdout (snd (checkATA lib connection addrs \<lparr>world = w, trace = []\<rparr>))) '''' =
       length (keys lib addrs)"
proof -
  obtain T where T: "trace (snd (checkATA lib connection addrs \<lparr>world = w, trace = []\<rparr>)) =
      ConsoleLog header # T" "length (spec_results T) = length (keys lib addrs)"
      "logged T = spec_rendering lib 0 (keys lib addrs) (spec_results T)"
    using checkATA_run [of lib connection addrs "\<lparr>world = w, trace = []\<rparr>"] by auto
  have "count_list (stdout (snd (checkATA lib connection addrs \<lparr>world = w, trace = []\<rparr>))) '''' =
       length (keys lib addrs)"
    using count_blank_rendering [OF T(2), of lib 0] header_not_blank
    by (simp add: stdout_def T(1) T(3))
  then show ?thesis
    using block_not_blank [of lib connection i ata st] loop_step [OF assms]
    by (simp add: stdout_try_catch)
qed

theorem separator_after_each_block_witness:
  "1 < length [''Found1'', ''Missing2'', ''Broken3''] \<and>
   PublicKey mock ([''Found1'', ''Missing2'', ''Broken3''] ! 1) = Inr ''Missing2'' \<and>
   stdout (console_log '''' (try_catch mock () 1 ''Missing2'' \<lparr>world = 2, trace = []\<rparr>)) =
     [cross_mark @ '' ATA 2: Missing2 - '' @ not_found_text, ''''] \<and>
   count_list
     (stdout (snd (checkATA mock () [''Found1'', ''Missing2'', ''Broken3'']
        \<lparr>world = 0, trace = []\<rparr>))) '''' = 3"
proof -
  have h1: "1 < length [''Found1'', ''Missing2'', ''Broken3'']" by simp
  have h2: "PublicKey mock ([''Found1'', ''Missing2'', ''Broken3''] ! 1) = Inr ''Missing2''"
    by (simp add: mock_simps)
  show ?thesis
    using h2 separator_after_each_block [OF h1 h2, of "()" "\<lparr>world = 2, trace = []\<rparr>" 0]
    by (clarsimp simp: block_def stdout_def run_simps)
qed

text \<open>
  C8. The events of a run, after the header, are the segments of the identifiers in list
  order, one after the other. A segment is the existence query of its identifier with
  its outcome, then the decode query of the same identifier exactly when the outcome
  was an account, then output only. So every query and all output of an identifier
  come before any query of a later one, and a decode query only ever follows the
  existence query that reported the account present.
\<close>

theorem strictly_sequential:
  "\<exists>segs. trace (snd (checkATA lib connection addrs \<lparr>world = w, trace = []\<rparr>)) =
       ConsoleLog header # concat segs \<and>
     list_all2 segment (keys lib addrs) segs"
  using checkATA_run [of lib connection addrs "\<lparr>world = w, trace = []\<rparr>"] by auto

theorem strictly_sequential_witness:
  "\<exists>segs. trace (snd (checkATA mock () [''Found1'', ''Missing2'', ''Broken3'']
       \<lparr>world = 0, trace = []\<rparr>)) = ConsoleLog header # concat segs \<and>
     list_all2 segment [''Found1'', ''Missing2'', ''Broken3''] segs"
  using strictly_sequential [of mock "()" "[''Found1'', ''Missing2'', ''Broken3'']" 0]
  by (simp add: mock_simps)

text \<open>
  C9. When the existence query itself raises a fault for identifier \<open>i\<close>, the handler of the
  same try statement catches it: the block is the error line ending with the message of
  the fault, no decode query is issued, and the blank line follows. Processing then
  continues: when position \<open>i + 1\<close> holds a public key, the next event of the run is the
  existence query of identifier \<open>i + 1\<close>, and the later identifiers are queried, in order,
  up to the first string that is not a public key.
\<close>

theorem existence_fault_caught:
  assumes "i < length addrs" and "PublicKey lib (addrs ! i) = Inr ata"
    and "getAccountInfo lib connection ata (world st) = (Inl e, w1)"
  shows "block lib connection i ata st =
       [warning_sign @ '' ATA '' @ decimal (i + 1) @ '': '' @ toString lib ata @
        '' - '' @ error_text @ '': '' @ message e] \<and>
     suffix (message e) (block lib connection i ata st ! 0) \<and>
     checkATA_loop lib connection addrs i st =
       checkATA_loop lib connection addrs (i + 1)
         \<lparr>world = w1, trace = trace st @
            [QueryAccountInfo ata (Inl e),
             ConsoleLog (warning_sign @ '' ATA '' @ decimal (i + 1) @ '': '' @
                         toString lib ata @ '' - '' @ error_text @ '': '' @ message e),
             ConsoleLog '''']\<rparr> \<and>
     (\<exists>T. trace (snd (checkATA_loop lib connection addrs i st)) =
        trace st @
          [QueryAccountInfo ata (Inl e),
           ConsoleLog (warning_sign @ '' ATA '' @ decimal (i + 1) @ '': '' @
                       toString lib ata @ '' - '' @ error_text @ '': '' @ message e),
           ConsoleLog ''''] @ T \<and>
        queried T = keys lib (drop (i + 1) addrs)) \<and>
     (i + 1 < length addrs \<and> PublicKey lib (addrs ! (i + 1)) = Inr ata' \<longrightarrow>
        (\<exists>T. trace (snd (checkATA_loop lib connection addrs i st)) =
           trace st @
             [QueryAccountInfo ata (Inl e),
              ConsoleLog (warning_sign @ '' ATA '' @ decimal (i + 1) @ '': '' @
                          toString lib ata @ '' - '' @ error_text @ '': '' @ message e),
              ConsoleLog '''',
              QueryAccountInfo ata' (fst (getAccountInfo lib connection ata' w1))] @ T))"
proof -
  note b = block_info_fault [OF assms(3)]
  note t = try_catch_info_fault [OF assms(3)]
  have "suffix (message e) (block lib connection i ata st ! 0)"
    unfolding b by (simp only: nth_Cons_0 suffix_of_line)
  moreover have "checkATA_loop lib connection addrs i st =
       checkATA_loop lib connection addrs (i + 1)
         \<lparr>world = w1, trace = trace st @
            [QueryAccountInfo ata (Inl e),
             ConsoleLog (warning_sign @ '' ATA '' @ decimal (i + 1) @ '': '' @
                         toString lib ata @ '' - '' @ error_text @ '': '' @ message e),
             ConsoleLog '''']\<rparr>"
    unfolding loop_step [OF assms(1,2)] t
    by (simp add: console_log_def)
  moreover note loop_continues [OF assms(1,2), of connection st ata', unfolded t]
  ultimately show ?thesis using b by simp
qed

theorem existence_fault_caught_witness:
  "0 < length [''Down4'', ''Found1''] \<and>
   PublicKey mock ([''Down4'', ''Found1''] ! 0) = Inr ''Down4'' \<and>
   getAccountInfo mock () ''Down4'' 0 = (Inl (Fault ''fetch failed''), 1) \<and>
   0 + 1 < length [''Down4'', ''Found1''] \<and>
   PublicKey mock ([''Down4'', ''Found1''] ! (0 + 1)) = Inr ''Found1'' \<and>
   block mock () 0 ''Down4'' \<lparr>world = 0, trace = []\<rparr> =
     [warning_sign @ '' ATA 1: Down4 - '' @ error_text @ '': fetch failed''] \<and>
   (\<exists>T. trace (snd (checkATA_loop mock () [''Down4'', ''Found1''] 0
           \<lparr>world = 0, trace = []\<rparr>)) =
      [QueryAccountInfo ''Down4'' (Inl (Fault ''fetch failed'')),
       ConsoleLog (warning_sign @ '' ATA 1: Down4 - '' @ error_text @ '': fetch failed''),
       ConsoleLog '''',
       QueryAccountInfo ''Found1'' (Inr (Some ()))] @ T)"
proof -
  have h1: "0 < length [''Down4'', ''Found1'']" by simp
  have h2: "PublicKey mock ([''Down4'', ''Found1''] ! 0) = Inr ''Down4''"
    by (simp add: mock_simps)
  have h3: "getAccountInfo mock () ''Down4''
      (world (\<lparr>world = 0, trace = []\<rparr> :: (nat, string, unit) state)) =
     (Inl (Fault ''fetch failed''), 1)"
    by (simp add: mock_simps)
  have h4: "0 + 1 < length [''Down4'', ''Found1'']" by simp
  have h5: "PublicKey mock ([''Down4'', ''Found1''] ! (0 + 1)) = Inr ''Found1''"
    by (simp add: mock_simps)
  have t: "toString mock = (\<lambda>k. k)"
    by (simp add: mock_def)
  note th = existence_fault_caught [OF h1 h2 h3, of "''Found1''"]
  have b: "block mock () 0 ''Down4'' \<lparr>world = 0, trace = []\<rparr> =
     [warning_sign @ '' ATA 1: Down4 - '' @ error_text @ '': fetch failed'']"
    using th [THEN conjunct1] by (simp add: decimal.simps t)
  have n: "\<exists>T. trace (snd (checkATA_loop mock () [''Down4'', ''Found1''] 0
           \<lparr>world = 0, trace = []\<rparr>)) =
      [QueryAccountInfo ''Down4'' (Inl (Fault ''fetch failed'')),
       ConsoleLog (warning_sign @ '' ATA 1: Down4 - '' @ error_text @ '': fetch failed''),
       ConsoleLog '''',
       QueryAccountInfo ''Found1'' (Inr (Some ()))] @ T"
    using th [THEN conjunct2, THEN conjunct2, THEN conjunct2, THEN conjunct2, rule_format,
        OF conjI [OF h4 h5]]
    by (simp add: decimal.simps t mock_simps)
  show ?thesis
    using h1 h2 h3 h4 h5 b n by simp
qed

text \<open>
  C10. When the string at position \<open>n\<close> is not a public key, the exception of
  \<^verbatim>\<open>new PublicKey\<close> leaves the loop with the state as it was: the run writes and queries
  what the run on the first \<open>n\<close> addresses does, so nothing for position \<open>n\<close> or any later
  one, and its promise is rejected. When the strings before it are public keys, so that
  the loop reaches position \<open>n\<close>, the promise is rejected with this fault, and the handler
  at the top level, not the handler of the loop, receives it and passes it to
  \<^verbatim>\<open>console.error\<close>.
\<close>

theorem invalid_identifier_aborts:
  assumes "n < length addrs" and "PublicKey lib (addrs ! n) = Inl e"
  shows "checkATA_loop lib connection addrs n st = (Some e, st) \<and>
     snd (checkATA lib connection addrs st) =
       snd (checkATA lib connection (take n addrs) st) \<and>
     fst (checkATA lib connection addrs st) \<noteq> None \<and>
     (list_all (is_valid lib) (take n addrs) \<longrightarrow>
        fst (checkATA lib connection addrs st) = Some e \<and>
        (Connection lib endpoint ''confirmed'' = Inr connection \<longrightarrow>
           script lib addrs w = (console_error e (fst (script lib (take n addrs) w)), 0)))"
proof -
  have a: "checkATA_loop lib connection addrs n st = (Some e, st)"
    using assms by (rule loop_throw)
  note b = checkATA_take_any [OF assms, of connection st]
  have c: "fst (checkATA lib connection addrs st) = Some e \<and>
        (Connection lib endpoint ''confirmed'' = Inr connection \<longrightarrow>
           script lib addrs w = (console_error e (fst (script lib (take n addrs) w)), 0))"
    if v: "list_all (is_valid lib) (take n addrs)"
  proof -
    have t: "checkATA lib connection addrs st' =
       (Some e, snd (checkATA lib connection (take n addrs) st'))" for st'
      using assms v by (rule checkATA_take)
    have f: "fst (checkATA lib connection (take n addrs) st') = None" for st'
      using v by (rule checkATA_fulfilled)
    have "script lib addrs w = (console_error e (fst (script lib (take n addrs) w)), 0)"
      if conn: "Connection lib endpoint ''confirmed'' = Inr connection"
    proof -
      obtain st1 where st1:
        "checkATA lib connection (take n addrs) \<lparr>world = w, trace = []\<rparr> = (None, st1)"
        using f [of "\<lparr>world = w, trace = []\<rparr>"]
        by (cases "checkATA lib connection (take n addrs) \<lparr>world = w, trace = []\<rparr>") simp
      show ?thesis
        using t [of "\<lparr>world = w, trace = []\<rparr>"] st1
        by (simp add: script_connected [OF conn])
    qed
    with t [of st] show ?thesis by simp
  qed
  from a b c show ?thesis by blast
qed

theorem invalid_identifier_aborts_witness:
  "1 < length [''Found1'', ''Bad0'', ''Missing2''] \<and>
   PublicKey mock ([''Found1'', ''Bad0'', ''Missing2''] ! 1) =
     Inl (Fault ''Invalid public key input'') \<and>
   list_all (is_valid mock) (take 1 [''Found1'', ''Bad0'', ''Missing2'']) \<and>
   Connection mock endpoint ''confirmed'' = Inr () \<and>
   script mock [''Found1'', ''Bad0'', ''Missing2''] 0 =
     (console_error (Fault ''Invalid public key input'')
        (fst (script mock [''Found1''] 0)), 0) \<and>
   script mock [''Found1''] 0 =
     (\<lparr>world = 2, trace =
        [ConsoleLog header,
         QueryAccountInfo ''Found1'' (Inr (Some ())),
         QueryAccount ''Found1''
           (Inr \<lparr>mint = ''MintA'', owner = ''OwnerB'', amount = 18446744073709551615\<rparr>),
         ConsoleLog (check_mark @ '' ATA 1: Found1''),
         ConsoleLog ''   Mint: MintA'',
         ConsoleLog ''   Balance: 18446744073709551615'',
         ConsoleLog ''   Owner: OwnerB'',
         ConsoleLog '''']\<rparr>, 0)"
proof -
  have h1: "1 < length [''Found1'', ''Bad0'', ''Missing2'']" by simp
  have h2: "list_all (is_valid mock) (take 1 [''Found1'', ''Bad0'', ''Missing2''])"
    by (simp add: is_valid_def mock_simps)
  have h3: "PublicKey mock ([''Found1'', ''Bad0'', ''Missing2''] ! 1) =
     Inl (Fault ''Invalid public key input'')"
    by (simp add: mock_simps)
  have h4: "Connection mock endpoint ''confirmed'' = Inr ()"
    by (simp add: mock_simps)
  have r: "script mock [''Found1''] 0 =
     (\<lparr>world = 2, trace =
        [ConsoleLog header,
         QueryAccountInfo ''Found1'' (Inr (Some ())),
         QueryAccount ''Found1''
           (Inr \<lparr>mint = ''MintA'', owner = ''OwnerB'', amount = 18446744073709551615\<rparr>),
         ConsoleLog (check_mark @ '' ATA 1: Found1''),
         ConsoleLog ''   Mint: MintA'',
         ConsoleLog ''   Balance: 18446744073709551615'',
         ConsoleLog ''   Owner: OwnerB'',
         ConsoleLog '''']\<rparr>, 0)"
    by (simp add: script_def run_simps)
  show ?thesis
    using h1 h2 h3 h4 r
      invalid_identifier_aborts [OF h1 h3, of "()" "\<lparr>world = 0, trace = []\<rparr>" 0]
    by simp
qed

end
